theory Spec2Isabelle
  imports Main "HOL-Library.Word" "HOL-Library.AList" "HOL-Library.Sublist"
begin

section \<open>The Lua side: values, tables, faults\<close>

text \<open>
  The file \<^verbatim>\<open>src/lua/lua_mimepart.c\<close> binds two classes of objects to Lua: text parts
  (\<^verbatim>\<open>rspamd{textpart}\<close>) and mime parts (\<^verbatim>\<open>rspamd{mimepart}\<close>). Every method is a C
  function over a Lua stack. A method is modelled by a function from its receiver and
  its further arguments to a fault or the list of values it leaves for Lua (the C
  function's \<^verbatim>\<open>return n\<close> with the top \<open>n\<close> stack slots).
\<close>

type_synonym addr = nat

text \<open>\<^verbatim>\<open>struct rspamd_lua_text\<close>: a borrowed view, as the methods fill it in.\<close>

record rspamd_lua_text =
  start :: addr
  len :: nat
  flags :: nat

text \<open>\<^verbatim>\<open>struct rspamd_lua_regexp\<close>: the field \<^verbatim>\<open>re\<close> points at the compiled expression
  (an opaque handle here) or is \<^verbatim>\<open>NULL\<close>.\<close>

type_synonym rspamd_regexp_t = nat

record rspamd_lua_regexp =
  re :: "rspamd_regexp_t option"

text \<open>
  A userdata block together with its class (the metatable \<^verbatim>\<open>rspamd_lua_setclass\<close> gives
  it): \<^verbatim>\<open>rspamd{text}\<close> holding a \<^verbatim>\<open>struct rspamd_lua_text\<close>, \<^verbatim>\<open>rspamd{mimepart}\<close> holding a
  part pointer, \<^verbatim>\<open>rspamd{regexp}\<close> holding a pointer to a \<^verbatim>\<open>struct rspamd_lua_regexp\<close>
  (possibly \<^verbatim>\<open>NULL\<close>), or a block of any other class.
\<close>

datatype udata =
    UText rspamd_lua_text
  | UMimePart addr
  | URegexp "rspamd_lua_regexp option"
  | UOther string

text \<open>
  Lua numbers are doubles; every number pushed by this file is an unsigned counter or
  length that a double holds exactly, so a number is modelled by its integer value.
  A table is an association list with one entry per key.
\<close>

datatype lua_value =
    LNil
  | LBoolean bool
  | LNumber int
  | LString string
  | LTable "(lua_value \<times> lua_value) list"
  | LFunction nat
  | LUserdata udata

text \<open>\<^verbatim>\<open>lua_settable\<close> / \<^verbatim>\<open>lua_rawseti\<close> on a table, and reading a key back.\<close>

definition lua_settable ::
  "(lua_value \<times> lua_value) list \<Rightarrow> lua_value \<Rightarrow> lua_value \<Rightarrow> (lua_value \<times> lua_value) list" where
  "lua_settable t k v = (if v = LNil then AList.delete k t else AList.update k v t)"

definition lua_rawget :: "(lua_value \<times> lua_value) list \<Rightarrow> lua_value \<Rightarrow> lua_value" where
  "lua_rawget t k = (case map_of t k of None \<Rightarrow> LNil | Some v \<Rightarrow> v)"

text \<open>
  C strings. A \<^typ>\<open>string\<close> stands for the bytes behind a \<^verbatim>\<open>char *\<close>; the C string is
  what precedes the first NUL byte. \<^verbatim>\<open>lua_tostring\<close> hands out a pointer to the bytes of
  a Lua string (which may contain NUL bytes), \<^verbatim>\<open>lua_pushstring\<close> copies a C string, and
  \<^verbatim>\<open>strcmp (a, b) == 0\<close> compares two C strings.
\<close>

definition cstr :: "string \<Rightarrow> string" where
  "cstr s = takeWhile (\<lambda>c. c \<noteq> CHR 0x00) s"

definition strcmp_eq0 :: "string \<Rightarrow> string \<Rightarrow> bool" where
  "strcmp_eq0 a b = (cstr a = cstr b)"

definition lua_pushstring :: "string \<Rightarrow> lua_value" where
  "lua_pushstring s = LString (cstr s)"

text \<open>\<^verbatim>\<open>lua_pushlstring (L, begin, len)\<close> on a token whose bytes are \<open>s\<close>.\<close>

definition lua_pushlstring :: "string \<Rightarrow> lua_value" where
  "lua_pushlstring s = LString s"

text \<open>
  Faults: \<^verbatim>\<open>luaL_error\<close> with its formatted message, \<^verbatim>\<open>luaL_argcheck\<close> failing on an
  argument, and the dereference of a \<^verbatim>\<open>NULL\<close> pointer.
\<close>

datatype fault =
    LuaError string
  | ArgError nat string
  | NullDeref

type_synonym 'a outcome = "fault + 'a"

text \<open>
  The receiver of a method, as \<^verbatim>\<open>rspamd_lua_check_udata (L, 1, class)\<close> (defined outside
  this file) finds it: no userdata of the class (\<^verbatim>\<open>NULL\<close>), or a userdata block whose
  stored part pointer is \<^verbatim>\<open>NULL\<close> or points at a part.
\<close>

datatype 'p checked_udata =
    NoUdata
  | Udata "'p option"

section \<open>Text parts\<close>

text \<open>\<^verbatim>\<open>GByteArray\<close> (glib) and the begin/len token embedded in a part.\<close>

record GByteArray =
  data :: addr
  len :: nat

record rspamd_ftok =
  ftok_begin :: addr
  len :: nat

text \<open>
  \<^verbatim>\<open>struct rspamd_process_exception\<close>: a flagged byte range of the text. The enumeration
  of kinds is declared outside this file; only \<^verbatim>\<open>RSPAMD_EXCEPTION_URL\<close> is named here,
  every other kind is \<open>RSPAMD_EXCEPTION_OTHER n\<close>.
\<close>

datatype rspamd_exception_type =
    RSPAMD_EXCEPTION_URL
  | RSPAMD_EXCEPTION_OTHER nat

record rspamd_process_exception =
  len :: nat
  type :: rspamd_exception_type

text \<open>
  Modelled from the spec: the flag constants \<^verbatim>\<open>RSPAMD_MIME_TEXT_PART_FLAG_*\<close> are declared
  in \<^verbatim>\<open>libmime/message.h\<close>, outside this file. The spec gives the flags of a text part as a
  set of \<open>empty\<close>, \<open>utf8\<close>, \<open>html\<close>, \<open>8bit_raw\<close>, \<open>8bit_encoded\<close>.
\<close>

datatype rspamd_mime_text_part_flag =
    RSPAMD_MIME_TEXT_PART_FLAG_UTF
  | RSPAMD_MIME_TEXT_PART_FLAG_EMPTY
  | RSPAMD_MIME_TEXT_PART_FLAG_HTML
  | RSPAMD_MIME_TEXT_PART_FLAG_8BIT
  | RSPAMD_MIME_TEXT_PART_FLAG_8BIT_ENCODED

text \<open>
  \<^verbatim>\<open>struct rspamd_mime_text_part\<close>, with the fields the methods below read. Pointer
  fields that may be \<^verbatim>\<open>NULL\<close> are options; \<^verbatim>\<open>exceptions\<close> is a \<^verbatim>\<open>GList\<close> (\<^verbatim>\<open>NULL\<close> is the
  empty list); \<^verbatim>\<open>language\<close> is a \<^verbatim>\<open>char *\<close>.
\<close>

record rspamd_mime_text_part =
  flags :: "rspamd_mime_text_part_flag set"
  content :: "GByteArray option"
  stripped_content :: "GByteArray option"
  utf_raw_content :: "GByteArray option"
  parsed :: rspamd_ftok
  raw :: rspamd_ftok
  exceptions :: "rspamd_process_exception list"
  nlines :: nat
  empty_lines :: nat
  spaces :: nat
  non_spaces :: nat
  double_spaces :: nat
  ascii_chars :: nat
  non_ascii_chars :: nat
  capital_letters :: nat
  numeric_characters :: nat
  language :: "string option"

text \<open>
  Modelled from the spec: the macros \<^verbatim>\<open>IS_PART_EMPTY\<close> and \<^verbatim>\<open>IS_PART_UTF\<close> are declared in
  \<^verbatim>\<open>libmime/message.h\<close>, outside this file; each tests one flag of the part.
\<close>

definition IS_PART_EMPTY :: "rspamd_mime_text_part \<Rightarrow> bool" where
  "IS_PART_EMPTY part =
     (RSPAMD_MIME_TEXT_PART_FLAG_EMPTY \<in> rspamd_mime_text_part.flags part)"

definition IS_PART_UTF :: "rspamd_mime_text_part \<Rightarrow> bool" where
  "IS_PART_UTF part =
     (RSPAMD_MIME_TEXT_PART_FLAG_UTF \<in> rspamd_mime_text_part.flags part)"

definition lua_check_textpart ::
  "rspamd_mime_text_part checked_udata \<Rightarrow> rspamd_mime_text_part option outcome" where
  "lua_check_textpart ud =
     (case ud of
        NoUdata \<Rightarrow> Inl (ArgError 1 (CHR 0x27 # ''textpart'' @ CHR 0x27 # '' expected''))
      | Udata p \<Rightarrow> Inr p)"

text \<open>A fresh \<^verbatim>\<open>rspamd{text}\<close> userdata with \<^verbatim>\<open>start\<close>, \<^verbatim>\<open>len\<close> set and \<^verbatim>\<open>flags = 0\<close>.\<close>

definition new_text :: "addr \<Rightarrow> nat \<Rightarrow> lua_value" where
  "new_text s l =
     LUserdata
       (UText \<lparr>rspamd_lua_text.start = s, rspamd_lua_text.len = l, rspamd_lua_text.flags = 0\<rparr>)"

text \<open>The view of a byte array reached through a pointer: \<^verbatim>\<open>p->data\<close>, \<^verbatim>\<open>p->len\<close>.\<close>

definition byte_array_text :: "GByteArray option \<Rightarrow> lua_value list outcome" where
  "byte_array_text p =
     (case p of
        None \<Rightarrow> Inl NullDeref
      | Some a \<Rightarrow> Inr [new_text (data a) (GByteArray.len a)])"

definition ftok_text :: "rspamd_ftok \<Rightarrow> lua_value list outcome" where
  "ftok_text t = Inr [new_text (ftok_begin t) (rspamd_ftok.len t)]"

definition lua_textpart_is_utf ::
  "rspamd_mime_text_part checked_udata \<Rightarrow> lua_value list outcome" where
  "lua_textpart_is_utf ud =
     (case lua_check_textpart ud of
        Inl e \<Rightarrow> Inl e
      | Inr None \<Rightarrow> Inr [LBoolean False]
      | Inr (Some part) \<Rightarrow>
          if IS_PART_EMPTY part then Inr [LBoolean False]
          else Inr [LBoolean (IS_PART_UTF part)])"

text \<open>
  \<^verbatim>\<open>lua_textpart_get_content\<close>. The second argument is the value in stack slot 2
  (\<open>LNil\<close> when the caller gave none); \<^verbatim>\<open>type\<close> (here \<open>tp\<close>) is set only when it is a
  Lua string.
\<close>

definition lua_textpart_get_content ::
  "rspamd_mime_text_part checked_udata \<Rightarrow> lua_value \<Rightarrow> lua_value list outcome" where
  "lua_textpart_get_content ud arg2 =
     (case lua_check_textpart ud of
        Inl e \<Rightarrow> Inl e
      | Inr None \<Rightarrow> Inr [LNil]
      | Inr (Some part) \<Rightarrow>
          if IS_PART_EMPTY part then Inr [LNil]
          else
            (case (case arg2 of LString s \<Rightarrow> Some s | _ \<Rightarrow> None) of
               None \<Rightarrow> byte_array_text (content part)
             | Some tp \<Rightarrow>
                 if strcmp_eq0 tp ''content'' then byte_array_text (content part)
                 else if strcmp_eq0 tp ''content_oneline''
                   then byte_array_text (stripped_content part)
                 else if strcmp_eq0 tp ''raw_parsed'' then ftok_text (parsed part)
                 else if strcmp_eq0 tp ''raw_utf''
                   then byte_array_text (utf_raw_content part)
                 else if strcmp_eq0 tp ''raw'' then ftok_text (raw part)
                 else Inl (LuaError (''invalid content type: '' @ cstr tp))))"

definition lua_textpart_get_raw_content ::
  "rspamd_mime_text_part checked_udata \<Rightarrow> lua_value list outcome" where
  "lua_textpart_get_raw_content ud =
     (case lua_check_textpart ud of
        Inl e \<Rightarrow> Inl e
      | Inr None \<Rightarrow> Inr [LNil]
      | Inr (Some part) \<Rightarrow>
          if IS_PART_EMPTY part then Inr [LNil] else ftok_text (raw part))"

definition lua_textpart_get_content_oneline ::
  "rspamd_mime_text_part checked_udata \<Rightarrow> lua_value list outcome" where
  "lua_textpart_get_content_oneline ud =
     (case lua_check_textpart ud of
        Inl e \<Rightarrow> Inl e
      | Inr None \<Rightarrow> Inr [LNil]
      | Inr (Some part) \<Rightarrow>
          if IS_PART_EMPTY part then Inr [LNil]
          else byte_array_text (stripped_content part))"

definition lua_textpart_get_length ::
  "rspamd_mime_text_part checked_udata \<Rightarrow> lua_value list outcome" where
  "lua_textpart_get_length ud =
     (case lua_check_textpart ud of
        Inl e \<Rightarrow> Inl e
      | Inr None \<Rightarrow> Inr [LNil]
      | Inr (Some part) \<Rightarrow>
          if IS_PART_EMPTY part then Inr [LNumber 0]
          else
            (case content part of
               None \<Rightarrow> Inr [LNumber 0]
             | Some a \<Rightarrow> Inr [LNumber (int (GByteArray.len a))]))"

text \<open>
  \<^verbatim>\<open>lua_textpart_get_urls_length\<close>: the loop over the \<^verbatim>\<open>GList\<close>, with the accumulator
  \<^verbatim>\<open>guint total\<close> a 32-bit unsigned; \<^verbatim>\<open>total += ex->len\<close> converts the length to that
  type and wraps.
\<close>

fun urls_length_loop :: "rspamd_process_exception list \<Rightarrow> 32 word \<Rightarrow> 32 word" where
  "urls_length_loop [] total' = total'"
| "urls_length_loop (ex # cur) total' =
     urls_length_loop cur
       (if rspamd_process_exception.type ex = RSPAMD_EXCEPTION_URL
        then total' + word_of_nat (rspamd_process_exception.len ex)
        else total')"

definition lua_textpart_get_urls_length ::
  "rspamd_mime_text_part checked_udata \<Rightarrow> lua_value list outcome" where
  "lua_textpart_get_urls_length ud =
     (case lua_check_textpart ud of
        Inl e \<Rightarrow> Inl e
      | Inr None \<Rightarrow> Inr [LNil]
      | Inr (Some part) \<Rightarrow> Inr [LNumber (uint (urls_length_loop (exceptions part) 0))])"

definition lua_textpart_get_lines_count ::
  "rspamd_mime_text_part checked_udata \<Rightarrow> lua_value list outcome" where
  "lua_textpart_get_lines_count ud =
     (case lua_check_textpart ud of
        Inl e \<Rightarrow> Inl e
      | Inr None \<Rightarrow> Inr [LNil]
      | Inr (Some part) \<Rightarrow>
          if IS_PART_EMPTY part then Inr [LNumber 0]
          else Inr [LNumber (int (nlines part))])"

text \<open>The test that \<^verbatim>\<open>part->language[0]\<close> is not the NUL byte: the C string is not empty.\<close>

definition first_byte_not_nul :: "string \<Rightarrow> bool" where
  "first_byte_not_nul s = (case s of [] \<Rightarrow> False | c # _ \<Rightarrow> c \<noteq> CHR 0x00)"

definition lua_textpart_get_language ::
  "rspamd_mime_text_part checked_udata \<Rightarrow> lua_value list outcome" where
  "lua_textpart_get_language ud =
     (case lua_check_textpart ud of
        Inl e \<Rightarrow> Inl e
      | Inr None \<Rightarrow> Inl (LuaError ''invalid arguments'')
      | Inr (Some part) \<Rightarrow>
          (case language part of
             None \<Rightarrow> Inr [LNil]
           | Some l \<Rightarrow>
               if first_byte_not_nul l then Inr [lua_pushstring l] else Inr [LNil]))"

definition lua_textpart_get_stats ::
  "rspamd_mime_text_part checked_udata \<Rightarrow> lua_value list outcome" where
  "lua_textpart_get_stats ud =
     (case lua_check_textpart ud of
        Inl e \<Rightarrow> Inl e
      | Inr None \<Rightarrow> Inl (LuaError ''invalid arguments'')
      | Inr (Some part) \<Rightarrow>
          (let t0 = [];
               t1 = lua_settable t0 (LString ''lines'') (LNumber (int (nlines part)));
               t2 = lua_settable t1 (LString ''empty_lines'') (LNumber (int (empty_lines part)));
               t3 = lua_settable t2 (LString ''spaces'') (LNumber (int (spaces part)));
               t4 = lua_settable t3 (LString ''non_spaces'') (LNumber (int (non_spaces part)));
               t5 = lua_settable t4 (LString ''double_spaces'')
                      (LNumber (int (double_spaces part)));
               t6 = lua_settable t5 (LString ''ascii_characters'')
                      (LNumber (int (ascii_chars part)));
               t7 = lua_settable t6 (LString ''non_ascii_characters'')
                      (LNumber (int (non_ascii_chars part)));
               t8 = lua_settable t7 (LString ''capital_letters'')
                      (LNumber (int (capital_letters part)));
               t9 = lua_settable t8 (LString ''numeric_characters'')
                      (LNumber (int (numeric_characters part)))
           in Inr [LTable t9]))"

section \<open>Mime parts\<close>

text \<open>
  Modelled from the spec: the flag constants \<^verbatim>\<open>RSPAMD_CONTENT_TYPE_*\<close> are declared in
  \<^verbatim>\<open>libmime/content_type.h\<close>, outside this file. The flags of a content type are a set; the
  two this file tests (malformed, multipart) are named, every other one is
  \<open>RSPAMD_CONTENT_TYPE_OTHER n\<close>.
\<close>

datatype rspamd_content_type_flag =
    RSPAMD_CONTENT_TYPE_BROKEN
  | RSPAMD_CONTENT_TYPE_MULTIPART
  | RSPAMD_CONTENT_TYPE_OTHER nat

text \<open>
  \<^verbatim>\<open>struct rspamd_content_type_param\<close>: two tokens, the name and the value of the
  parameter, each given by the bytes it spans (so \<^verbatim>\<open>.len\<close> is the length).
\<close>

record rspamd_content_type_param =
  name :: string
  param_value :: string

text \<open>
  \<^verbatim>\<open>struct rspamd_content_type\<close>. The tokens are given by their bytes; \<^verbatim>\<open>attrs\<close> is a
  \<^verbatim>\<open>GHashTable *\<close> (possibly \<^verbatim>\<open>NULL\<close>), given by the parameters it stores in the order
  \<^verbatim>\<open>g_hash_table_iter_next\<close> yields them.
\<close>

record rspamd_content_type =
  type :: string
  subtype :: string
  charset :: string
  boundary :: string
  attrs :: "rspamd_content_type_param list option"
  flags :: "rspamd_content_type_flag set"

text \<open>
  Modelled from the spec: the macro \<^verbatim>\<open>IS_CT_MULTIPART\<close> is declared in
  \<^verbatim>\<open>libmime/content_type.h\<close>, outside this file. It is applied to the pointer \<^verbatim>\<open>part->ct\<close>,
  which may be \<^verbatim>\<open>NULL\<close>. The spec has \<open>get_children\<close> return the child sequence only when
  the node is a multipart container and return absent otherwise, and it counts a part
  for which no content type could be derived as an ordinary (broken) part: so the macro
  holds when there is a content type carrying the multipart flag, and does not hold for
  a part without content type.
\<close>

definition IS_CT_MULTIPART :: "rspamd_content_type option \<Rightarrow> bool" where
  "IS_CT_MULTIPART p =
     (case p of
        None \<Rightarrow> False
      | Some c \<Rightarrow> RSPAMD_CONTENT_TYPE_MULTIPART \<in> rspamd_content_type.flags c)"

text \<open>\<^verbatim>\<open>struct rspamd_mime_header\<close>; this file reads \<^verbatim>\<open>name\<close> (a \<^verbatim>\<open>char *\<close>), the other
  fields are for \<^verbatim>\<open>rspamd_lua_push_header\<close>.\<close>

record rspamd_mime_header =
  name :: string
  raw_value :: string
  decoded :: string
  tab_separated :: bool
  empty_separator :: bool

text \<open>
  \<^verbatim>\<open>struct rspamd_mime_part\<close>, with the fields the methods below read: \<^verbatim>\<open>ct\<close> (possibly
  \<^verbatim>\<open>NULL\<close>), \<^verbatim>\<open>specific.mp.children\<close> (a \<^verbatim>\<open>GPtrArray *\<close> of part pointers, possibly \<^verbatim>\<open>NULL\<close>)
  and \<^verbatim>\<open>headers_order\<close> (a \<^verbatim>\<open>GQueue *\<close>, possibly \<^verbatim>\<open>NULL\<close>, given by the list at its head).
\<close>

record rspamd_mime_part =
  ct :: "rspamd_content_type option"
  children :: "addr list option"
  headers_order :: "rspamd_mime_header list option"

definition lua_check_mimepart ::
  "rspamd_mime_part checked_udata \<Rightarrow> rspamd_mime_part option outcome" where
  "lua_check_mimepart ud =
     (case ud of
        NoUdata \<Rightarrow> Inl (ArgError 1 (CHR 0x27 # ''mimepart'' @ CHR 0x27 # '' expected''))
      | Udata p \<Rightarrow> Inr p)"

definition lua_mimepart_is_broken ::
  "rspamd_mime_part checked_udata \<Rightarrow> lua_value list outcome" where
  "lua_mimepart_is_broken ud =
     (case lua_check_mimepart ud of
        Inl e \<Rightarrow> Inl e
      | Inr None \<Rightarrow> Inl (LuaError ''invalid arguments'')
      | Inr (Some part) \<Rightarrow>
          (case ct part of
             Some c \<Rightarrow>
               Inr [LBoolean
                 (if RSPAMD_CONTENT_TYPE_BROKEN \<in> rspamd_content_type.flags c
                  then True else False)]
           | None \<Rightarrow> Inr [LBoolean True]))"

text \<open>
  \<^verbatim>\<open>lua_mimepart_get_type_common\<close>. \<^verbatim>\<open>part->ct\<close> is read without a check. The attribute
  table starts empty; the loop over \<^verbatim>\<open>attrs\<close> stores each named parameter under its name.
\<close>

definition attrs_step ::
  "rspamd_content_type_param \<Rightarrow> (lua_value \<times> lua_value) list \<Rightarrow> (lua_value \<times> lua_value) list" where
  "attrs_step param t =
     (if length (rspamd_content_type_param.name param) > 0
         \<and> length (rspamd_content_type_param.name param) > 0
      then lua_settable t (lua_pushlstring (rspamd_content_type_param.name param))
             (lua_pushlstring (param_value param))
      else t)"

definition lua_mimepart_get_type_common ::
  "rspamd_mime_part checked_udata \<Rightarrow> bool \<Rightarrow> lua_value list outcome" where
  "lua_mimepart_get_type_common ud full =
     (case lua_check_mimepart ud of
        Inl e \<Rightarrow> Inl e
      | Inr None \<Rightarrow> Inr [LNil, LNil]
      | Inr (Some part) \<Rightarrow>
          (case ct part of
             None \<Rightarrow> Inl NullDeref
           | Some c \<Rightarrow>
               if \<not> full
               then Inr [lua_pushlstring (rspamd_content_type.type c),
                         lua_pushlstring (subtype c)]
               else
                 (let t0 = [];
                      t1 = (if length (charset c) > 0
                            then lua_settable t0 (LString ''charset'')
                                   (lua_pushlstring (charset c))
                            else t0);
                      t2 = (if length (boundary c) > 0
                            then lua_settable t1 (LString ''charset'')
                                   (lua_pushlstring (boundary c))
                            else t1);
                      t3 = (case attrs c of
                              None \<Rightarrow> t2
                            | Some params \<Rightarrow> fold attrs_step params t2)
                  in Inr [lua_pushlstring (rspamd_content_type.type c),
                          lua_pushlstring (subtype c),
                          LTable t3])))"

definition lua_mimepart_get_type_full ::
  "rspamd_mime_part checked_udata \<Rightarrow> lua_value list outcome" where
  "lua_mimepart_get_type_full ud = lua_mimepart_get_type_common ud True"

text \<open>
  \<^verbatim>\<open>lua_mimepart_get_children\<close>: absent unless \<^verbatim>\<open>IS_CT_MULTIPART (part->ct)\<close> holds and the
  child array is not \<^verbatim>\<open>NULL\<close>. The loop runs \<open>i\<close> over the array and stores a
  \<^verbatim>\<open>rspamd{mimepart}\<close> userdata for element \<open>i\<close> under the key \<open>i + 1\<close>.
\<close>

fun children_loop ::
  "addr list \<Rightarrow> nat \<Rightarrow> (lua_value \<times> lua_value) list \<Rightarrow> (lua_value \<times> lua_value) list" where
  "children_loop [] i t = t"
| "children_loop (cur # rest) i t =
     children_loop rest (i + 1)
       (lua_settable t (LNumber (int i + 1)) (LUserdata (UMimePart cur)))"

definition lua_mimepart_get_children ::
  "rspamd_mime_part checked_udata \<Rightarrow> lua_value list outcome" where
  "lua_mimepart_get_children ud =
     (case lua_check_mimepart ud of
        Inl e \<Rightarrow> Inl e
      | Inr None \<Rightarrow> Inl (LuaError ''invalid arguments'')
      | Inr (Some part) \<Rightarrow>
          if \<not> IS_CT_MULTIPART (ct part) then Inr [LNil]
          else
            (case children part of
               None \<Rightarrow> Inr [LNil]
             | Some cs \<Rightarrow> Inr [LTable (children_loop cs 0 [])]))"

subsection \<open>Iterating over the headers\<close>

text \<open>
  \<^verbatim>\<open>lua_mimepart_headers_foreach\<close> calls back into Lua. The interpreter is a parameter:
  \<open>pcall s f args\<close> is \<^verbatim>\<open>lua_pcall\<close> of the function value \<open>f\<close> on \<open>args\<close> in interpreter
  state \<open>s\<close>, giving the error message or the returned values (\<^verbatim>\<open>LUA_MULTRET\<close>) and the
  next state. \<^verbatim>\<open>rspamd_lua_push_header\<close> and \<^verbatim>\<open>rspamd_regexp_match\<close>, defined outside this
  file, are parameters too. The model returns, besides the values left for Lua (none),
  the sequence of \<^verbatim>\<open>lua_pcall\<close> invocations made, each with the header it was made for
  and its outcome, and the final interpreter state.
\<close>

type_synonym pcall_result = "string + lua_value list"

type_synonym invocation = "rspamd_mime_header \<times> pcall_result"

text \<open>
  After a successful call: \<^verbatim>\<open>lua_gettop (L) > old_top\<close>, \<^verbatim>\<open>lua_isboolean (L, old_top + 1)\<close>
  and \<^verbatim>\<open>lua_toboolean (L, old_top + 1)\<close>, on the returned values.
\<close>

definition stop_signalled :: "lua_value list \<Rightarrow> bool" where
  "stop_signalled res =
     (case res of
        [] \<Rightarrow> False
      | v # _ \<Rightarrow> (case v of LBoolean b \<Rightarrow> b | _ \<Rightarrow> False))"

text \<open>The \<^verbatim>\<open>while (cur)\<close> loop: \<open>skip\<close> is the regexp filter, \<open>call\<close> the pushes and the
  \<^verbatim>\<open>lua_pcall\<close> for one header.\<close>

fun foreach_loop ::
  "(rspamd_mime_header \<Rightarrow> 's \<Rightarrow> pcall_result \<times> 's) \<Rightarrow> (rspamd_mime_header \<Rightarrow> bool) \<Rightarrow>
   rspamd_mime_header list \<Rightarrow> 's \<Rightarrow> invocation list \<times> 's" where
  "foreach_loop call skip [] s = ([], s)"
| "foreach_loop call skip (hdr # cur) s =
     (if skip hdr then foreach_loop call skip cur s
      else
        (case call hdr s of
           (Inl err, s') \<Rightarrow> ([(hdr, Inl err)], s')
         | (Inr res, s') \<Rightarrow>
             if stop_signalled res then ([(hdr, Inr res)], s')
             else
               (case foreach_loop call skip cur s' of
                  (calls, s'') \<Rightarrow> ((hdr, Inr res) # calls, s''))))"

text \<open>
  Reading the optional table in stack slot 3: the booleans \<^verbatim>\<open>full\<close> and \<^verbatim>\<open>raw\<close>, and the
  userdata \<^verbatim>\<open>regexp\<close>. \<^verbatim>\<open>rspamd_lua_check_udata\<close> gives \<^verbatim>\<open>NULL\<close> for a userdata of another
  class, and the result is dereferenced at once.
\<close>

definition foreach_params ::
  "lua_value \<Rightarrow> (bool \<times> bool \<times> rspamd_lua_regexp option) outcome" where
  "foreach_params arg3 =
     (case arg3 of
        LTable t \<Rightarrow>
          (let full = (case lua_rawget t (LString ''full'') of LBoolean b \<Rightarrow> b | _ \<Rightarrow> False);
               raw' = (case lua_rawget t (LString ''raw'') of LBoolean b \<Rightarrow> b | _ \<Rightarrow> False)
           in (case lua_rawget t (LString ''regexp'') of
                 LUserdata u \<Rightarrow>
                   (case u of
                      URegexp r \<Rightarrow> Inr (full, raw', r)
                    | _ \<Rightarrow> Inl NullDeref)
               | _ \<Rightarrow> Inr (full, raw', None)))
      | _ \<Rightarrow> Inr (False, False, None))"

text \<open>\<^verbatim>\<open>re && re->re\<close> and a failed \<^verbatim>\<open>rspamd_regexp_match\<close> on the header's name.\<close>

definition regexp_skips ::
  "(rspamd_regexp_t \<Rightarrow> string \<Rightarrow> bool) \<Rightarrow> rspamd_lua_regexp option \<Rightarrow> rspamd_mime_header \<Rightarrow> bool" where
  "regexp_skips rspamd_regexp_match r hdr =
     (case r of
        None \<Rightarrow> False
      | Some lre \<Rightarrow>
          (case re lre of
             None \<Rightarrow> False
           | Some rx \<Rightarrow> \<not> rspamd_regexp_match rx (cstr (rspamd_mime_header.name hdr))))"

definition lua_mimepart_headers_foreach ::
  "('s \<Rightarrow> lua_value \<Rightarrow> lua_value list \<Rightarrow> pcall_result \<times> 's) \<Rightarrow>
   (rspamd_mime_header \<Rightarrow> bool \<Rightarrow> bool \<Rightarrow> lua_value) \<Rightarrow>
   (rspamd_regexp_t \<Rightarrow> string \<Rightarrow> bool) \<Rightarrow>
   rspamd_mime_part checked_udata \<Rightarrow> lua_value \<Rightarrow> lua_value \<Rightarrow> 's \<Rightarrow>
   lua_value list outcome \<times> invocation list \<times> 's" where
  "lua_mimepart_headers_foreach pcall rspamd_lua_push_header rspamd_regexp_match ud arg2 arg3 s =
     (case lua_check_mimepart ud of
        Inl e \<Rightarrow> (Inl e, [], s)
      | Inr None \<Rightarrow> (Inr [], [], s)
      | Inr (Some part) \<Rightarrow>
          (case arg2 of
             LFunction f \<Rightarrow>
               (case foreach_params arg3 of
                  Inl e \<Rightarrow> (Inl e, [], s)
                | Inr (full, raw', r) \<Rightarrow>
                    (case headers_order part of
                       None \<Rightarrow> (Inr [], [], s)
                     | Some hdrs \<Rightarrow>
                         (case foreach_loop
                                 (\<lambda>hdr s. pcall s arg2
                                    [lua_pushstring (rspamd_mime_header.name hdr),
                                     rspamd_lua_push_header hdr full raw'])
                                 (regexp_skips rspamd_regexp_match r) hdrs s of
                            (calls, s') \<Rightarrow> (Inr [], calls, s'))))
           | _ \<Rightarrow> (Inr [], [], s)))"

section \<open>Notions used in the statements\<close>

text \<open>The five variant names of \<^verbatim>\<open>text_part:get_content\<close>, as its documentation lists them.\<close>

definition variant_names :: "string list" where
  "variant_names = [''content'', ''content_oneline'', ''raw'', ''raw_parsed'', ''raw_utf'']"

text \<open>The sum of the byte lengths of the exceptions of kind url.\<close>

definition urls_bytes :: "rspamd_process_exception list \<Rightarrow> nat" where
  "urls_bytes exs =
     sum_list (map rspamd_process_exception.len
       (filter (\<lambda>ex. rspamd_process_exception.type ex = RSPAMD_EXCEPTION_URL) exs))"

text \<open>The table entry for the child at (0-based) position \<open>i\<close>: key \<open>i + 1\<close>, a mime part
  userdata for the child pointer.\<close>

definition child_entry :: "nat \<times> addr \<Rightarrow> lua_value \<times> lua_value" where
  "child_entry = (\<lambda>(i, cur). (LNumber (int i + 1), LUserdata (UMimePart cur)))"

text \<open>The parameters of a content type (none when \<^verbatim>\<open>attrs\<close> is \<^verbatim>\<open>NULL\<close>), and those of a
  given name.\<close>

definition attrs_list :: "rspamd_content_type \<Rightarrow> rspamd_content_type_param list" where
  "attrs_list c = (case attrs c of None \<Rightarrow> [] | Some params \<Rightarrow> params)"

definition named ::
  "string \<Rightarrow> rspamd_content_type_param list \<Rightarrow> rspamd_content_type_param list" where
  "named n params = filter (\<lambda>p. rspamd_content_type_param.name p = n) params"

text \<open>The headers of a part in insertion order, and those among them that the header
  iteration selects (all of them, or the ones whose name the regexp matches).\<close>

definition part_headers :: "rspamd_mime_part \<Rightarrow> rspamd_mime_header list" where
  "part_headers part = (case headers_order part of None \<Rightarrow> [] | Some hdrs \<Rightarrow> hdrs)"

definition foreach_selected ::
  "(rspamd_regexp_t \<Rightarrow> string \<Rightarrow> bool) \<Rightarrow> lua_value \<Rightarrow> rspamd_mime_part \<Rightarrow>
   rspamd_mime_header list" where
  "foreach_selected rspamd_regexp_match arg3 part =
     (case foreach_params arg3 of
        Inl e \<Rightarrow> []
      | Inr (full, raw', r) \<Rightarrow>
          filter (\<lambda>hdr. \<not> regexp_skips rspamd_regexp_match r hdr) (part_headers part))"

text \<open>An invocation after which the loop is left: the call failed, or the callback
  signalled stop.\<close>

definition ends_iteration :: "pcall_result \<Rightarrow> bool" where
  "ends_iteration r = (case r of Inl err \<Rightarrow> True | Inr res \<Rightarrow> stop_signalled res)"

section \<open>Concrete parts\<close>

definition example_text_part :: rspamd_mime_text_part where
  "example_text_part =
     \<lparr>rspamd_mime_text_part.flags = {RSPAMD_MIME_TEXT_PART_FLAG_UTF},
      content = Some \<lparr>data = 100, GByteArray.len = 5\<rparr>,
      stripped_content = Some \<lparr>data = 300, GByteArray.len = 4\<rparr>,
      utf_raw_content = Some \<lparr>data = 200, GByteArray.len = 9\<rparr>,
      parsed = \<lparr>ftok_begin = 400, rspamd_ftok.len = 9\<rparr>,
      raw = \<lparr>ftok_begin = 500, rspamd_ftok.len = 12\<rparr>,
      exceptions = [],
      nlines = 2, empty_lines = 0, spaces = 1, non_spaces = 4, double_spaces = 0,
      ascii_chars = 5, non_ascii_chars = 0, capital_letters = 1, numeric_characters = 0,
      language = Some ''en''\<rparr>"

text \<open>A part flagged empty (and utf8) whose line counter is not zero.\<close>

definition stale_empty_part :: rspamd_mime_text_part where
  "stale_empty_part =
     example_text_part\<lparr>rspamd_mime_text_part.flags :=
       {RSPAMD_MIME_TEXT_PART_FLAG_EMPTY, RSPAMD_MIME_TEXT_PART_FLAG_UTF}, nlines := 3\<rparr>"

definition no_language_part :: rspamd_mime_text_part where
  "no_language_part = example_text_part\<lparr>language := None\<rparr>"

definition empty_language_part :: rspamd_mime_text_part where
  "empty_language_part = example_text_part\<lparr>language := Some []\<rparr>"

definition mixed_exceptions_part :: rspamd_mime_text_part where
  "mixed_exceptions_part = example_text_part\<lparr>exceptions :=
     [\<lparr>rspamd_process_exception.len = 10,
       rspamd_process_exception.type = RSPAMD_EXCEPTION_URL\<rparr>,
      \<lparr>rspamd_process_exception.len = 5,
       rspamd_process_exception.type = RSPAMD_EXCEPTION_OTHER 2\<rparr>,
      \<lparr>rspamd_process_exception.len = 20,
       rspamd_process_exception.type = RSPAMD_EXCEPTION_URL\<rparr>]\<rparr>"

definition no_url_part :: rspamd_mime_text_part where
  "no_url_part = example_text_part\<lparr>exceptions :=
     [\<lparr>rspamd_process_exception.len = 5,
       rspamd_process_exception.type = RSPAMD_EXCEPTION_OTHER 2\<rparr>]\<rparr>"

text \<open>Two url exceptions of 2147483648 bytes each.\<close>

definition huge_urls_part :: rspamd_mime_text_part where
  "huge_urls_part = example_text_part\<lparr>exceptions :=
     [\<lparr>rspamd_process_exception.len = 2147483648,
       rspamd_process_exception.type = RSPAMD_EXCEPTION_URL\<rparr>,
      \<lparr>rspamd_process_exception.len = 2147483648,
       rspamd_process_exception.type = RSPAMD_EXCEPTION_URL\<rparr>]\<rparr>"

definition multipart_ct :: rspamd_content_type where
  "multipart_ct =
     \<lparr>rspamd_content_type.type = ''multipart'', subtype = ''mixed'', charset = ''utf-8'',
      boundary = ''xyz'', attrs = None,
      rspamd_content_type.flags = {RSPAMD_CONTENT_TYPE_MULTIPART}\<rparr>"

definition hdr_from :: rspamd_mime_header where
  "hdr_from = \<lparr>rspamd_mime_header.name = ''From'', raw_value = ''a@example.org'',
     decoded = ''a@example.org'', tab_separated = False, empty_separator = False\<rparr>"

definition hdr_subject :: rspamd_mime_header where
  "hdr_subject = \<lparr>rspamd_mime_header.name = ''Subject'', raw_value = ''hello'',
     decoded = ''hello'', tab_separated = False, empty_separator = False\<rparr>"

definition hdr_to :: rspamd_mime_header where
  "hdr_to = \<lparr>rspamd_mime_header.name = ''To'', raw_value = ''b@example.org'',
     decoded = ''b@example.org'', tab_separated = True, empty_separator = False\<rparr>"

text \<open>A multipart part with two children and three headers.\<close>

definition two_children_part :: rspamd_mime_part where
  "two_children_part =
     \<lparr>ct = Some multipart_ct, children = Some [7000, 7100],
      headers_order = Some [hdr_from, hdr_subject, hdr_to]\<rparr>"

text \<open>A multipart part whose child array exists and is empty.\<close>

definition childless_multipart :: rspamd_mime_part where
  "childless_multipart = two_children_part\<lparr>children := Some []\<rparr>"

text \<open>A part whose content type has a boundary and lists it among its parameters.\<close>

definition boundary_attr_part :: rspamd_mime_part where
  "boundary_attr_part =
     two_children_part\<lparr>ct := Some (multipart_ct\<lparr>attrs :=
       Some [\<lparr>rspamd_content_type_param.name = ''boundary'', param_value = ''xyz''\<rparr>]\<rparr>)\<rparr>"

text \<open>A part with a broken content type; a part with no content type and no headers.\<close>

definition broken_ct_part :: rspamd_mime_part where
  "broken_ct_part =
     two_children_part\<lparr>ct := Some (multipart_ct\<lparr>rspamd_content_type.flags :=
       {RSPAMD_CONTENT_TYPE_BROKEN}\<rparr>)\<rparr>"

definition headerless_part :: rspamd_mime_part where
  "headerless_part = \<lparr>ct = None, children = None, headers_order = None\<rparr>"

text \<open>Instances of the parameters of the header iteration: a header projection, a
  callback that returns \<open>true\<close> at the header named \<open>Subject\<close>, and one that never does.
  The interpreter state counts the calls.\<close>

definition example_push_header :: "rspamd_mime_header \<Rightarrow> bool \<Rightarrow> bool \<Rightarrow> lua_value" where
  "example_push_header hdr full raw' =
     (if full then LTable [(LString ''name'', LString (rspamd_mime_header.name hdr)),
                           (LString ''decoded'', LString (decoded hdr))]
      else if raw' then LString (raw_value hdr) else LString (decoded hdr))"

definition stop_at_subject :: "nat \<Rightarrow> lua_value \<Rightarrow> lua_value list \<Rightarrow> pcall_result \<times> nat" where
  "stop_at_subject s f args =
     (case args of
        LString n # _ \<Rightarrow> (if n = ''Subject'' then Inr [LBoolean True] else Inr [], s + 1)
      | _ \<Rightarrow> (Inl ''unexpected arguments'', s + 1))"

definition never_stop :: "nat \<Rightarrow> lua_value \<Rightarrow> lua_value list \<Rightarrow> pcall_result \<times> nat" where
  "never_stop s f args = (Inr [LBoolean False], s + 1)"

section \<open>Auxiliary facts\<close>

subsection \<open>C strings and the dispatch of \<open>get_content\<close>\<close>

lemma cstr_variant_names:
  "cstr ''content'' = ''content''" "cstr ''content_oneline'' = ''content_oneline''"
  "cstr ''raw'' = ''raw''" "cstr ''raw_parsed'' = ''raw_parsed''"
  "cstr ''raw_utf'' = ''raw_utf''"
  by (simp_all add: cstr_def)

lemma cstr_nonempty: "first_byte_not_nul l \<Longrightarrow> cstr l \<noteq> []"
  by (cases l) (auto simp: first_byte_not_nul_def cstr_def)

lemma cstr_empty: "cstr l = [] \<Longrightarrow> \<not> first_byte_not_nul l"
  by (cases l) (auto simp: first_byte_not_nul_def cstr_def split: if_splits)

lemma get_content_dispatch:
  "\<not> IS_PART_EMPTY part \<Longrightarrow>
   lua_textpart_get_content (Udata (Some part)) (LString tp) =
     (if cstr tp = ''content'' then byte_array_text (content part)
      else if cstr tp = ''content_oneline'' then byte_array_text (stripped_content part)
      else if cstr tp = ''raw_parsed'' then ftok_text (parsed part)
      else if cstr tp = ''raw_utf'' then byte_array_text (utf_raw_content part)
      else if cstr tp = ''raw'' then ftok_text (raw part)
      else Inl (LuaError (''invalid content type: '' @ cstr tp)))"
  by (simp add: lua_textpart_get_content_def lua_check_textpart_def strcmp_eq0_def
      cstr_variant_names)

lemma example_text_part_not_empty: "\<not> IS_PART_EMPTY example_text_part"
  by (simp add: IS_PART_EMPTY_def example_text_part_def)

subsection \<open>Accessors of a part flagged empty\<close>

lemma empty_part_get_content:
  "IS_PART_EMPTY part \<Longrightarrow> lua_textpart_get_content (Udata (Some part)) arg2 = Inr [LNil]"
  by (simp add: lua_textpart_get_content_def lua_check_textpart_def)

lemma empty_part_get_raw_content:
  "IS_PART_EMPTY part \<Longrightarrow> lua_textpart_get_raw_content (Udata (Some part)) = Inr [LNil]"
  by (simp add: lua_textpart_get_raw_content_def lua_check_textpart_def)

lemma empty_part_get_content_oneline:
  "IS_PART_EMPTY part \<Longrightarrow> lua_textpart_get_content_oneline (Udata (Some part)) = Inr [LNil]"
  by (simp add: lua_textpart_get_content_oneline_def lua_check_textpart_def)

lemma empty_part_get_length:
  "IS_PART_EMPTY part \<Longrightarrow> lua_textpart_get_length (Udata (Some part)) = Inr [LNumber 0]"
  by (simp add: lua_textpart_get_length_def lua_check_textpart_def)

lemma empty_part_get_lines_count:
  "IS_PART_EMPTY part \<Longrightarrow> lua_textpart_get_lines_count (Udata (Some part)) = Inr [LNumber 0]"
  by (simp add: lua_textpart_get_lines_count_def lua_check_textpart_def)

lemma get_stats_lines:
  "\<exists>t. lua_textpart_get_stats (Udata (Some part)) = Inr [LTable t] \<and>
       lua_rawget t (LString ''lines'') = LNumber (int (nlines part))"
  by (simp add: lua_textpart_get_stats_def lua_check_textpart_def lua_settable_def
      lua_rawget_def)

subsection \<open>The url length loop\<close>

lemma urls_length_loop_sum:
  "urls_length_loop exs t = t + word_of_nat (urls_bytes exs)"
  by (induction exs arbitrary: t) (simp_all add: urls_bytes_def)

lemma get_urls_length_mod:
  "lua_textpart_get_urls_length (Udata (Some part)) =
     Inr [LNumber (int (urls_bytes (exceptions part) mod 2 ^ 32))]"
  by (simp add: lua_textpart_get_urls_length_def lua_check_textpart_def urls_length_loop_sum
      uint_nat unat_of_nat)

lemma urls_bytes_no_url:
  "\<forall>ex \<in> set exs. rspamd_process_exception.type ex \<noteq> RSPAMD_EXCEPTION_URL \<Longrightarrow>
   urls_bytes exs = 0"
  by (induction exs) (simp_all add: urls_bytes_def)

subsection \<open>The table of children\<close>

lemma update_fresh: "k \<notin> fst ` set t \<Longrightarrow> AList.update k v t = t @ [(k, v)]"
  by (induction t) auto

lemma children_loop_entries:
  "\<forall>k \<in> fst ` set t. \<forall>j \<ge> i. k \<noteq> LNumber (int j + 1) \<Longrightarrow>
   children_loop cs i t = t @ map child_entry (enumerate i cs)"
proof (induction cs arbitrary: i t)
  case Nil
  then show ?case by simp
next
  case (Cons cur rest)
  let ?k = "LNumber (int i + 1)"
  let ?v = "LUserdata (UMimePart cur)"
  have fresh: "?k \<notin> fst ` set t" using Cons.prems by blast
  have step: "lua_settable t ?k ?v = t @ [(?k, ?v)]"
    using fresh by (simp add: lua_settable_def update_fresh)
  have "\<forall>k \<in> fst ` set (t @ [(?k, ?v)]). \<forall>j \<ge> i + 1. k \<noteq> LNumber (int j + 1)"
    using Cons.prems by auto
  then have "children_loop rest (i + 1) (t @ [(?k, ?v)]) =
      (t @ [(?k, ?v)]) @ map child_entry (enumerate (i + 1) rest)"
    by (rule Cons.IH)
  then show ?case using step by (simp add: child_entry_def)
qed

lemma children_table: "children_loop cs 0 [] = map child_entry (enumerate 0 cs)"
  using children_loop_entries [of "[]" 0 cs] by simp

subsection \<open>The attribute table\<close>

lemma attrs_step_map_of:
  "map_of (attrs_step p t) (LString n) =
     (if rspamd_content_type_param.name p = n \<and> n \<noteq> [] then Some (LString (param_value p))
      else map_of t (LString n))"
  by (auto simp: attrs_step_def lua_settable_def lua_pushlstring_def update_conv')

lemma fold_attrs_map_of:
  "n \<noteq> [] \<Longrightarrow> map_of (fold attrs_step params t) (LString n) =
     (if named n params = [] then map_of t (LString n)
      else Some (LString (param_value (last (named n params)))))"
proof (induction params rule: rev_induct)
  case Nil
  then show ?case by (simp add: named_def)
next
  case (snoc p params)
  then show ?case by (simp add: attrs_step_map_of named_def)
qed

subsection \<open>The header loop\<close>

lemma foreach_loop_prefix:
  "foreach_loop call skip hdrs s = (calls, s') \<Longrightarrow>
   prefix (map fst calls) (filter (\<lambda>h. \<not> skip h) hdrs)"
proof (induction hdrs arbitrary: s calls s')
  case Nil
  then show ?case by simp
next
  case (Cons hdr cur)
  show ?case
  proof (cases "skip hdr")
    case True
    with Cons show ?thesis by simp
  next
    case False
    obtain r s1 where c: "call hdr s = (r, s1)" by (cases "call hdr s")
    show ?thesis
    proof (cases r)
      case (Inl err)
      with Cons.prems False c show ?thesis by auto
    next
      case (Inr res)
      show ?thesis
      proof (cases "stop_signalled res")
        case True
        with Cons.prems False c Inr show ?thesis by auto
      next
        case nostop: False
        obtain calls1 s2 where l: "foreach_loop call skip cur s1 = (calls1, s2)"
          by (cases "foreach_loop call skip cur s1")
        from Cons.IH [OF l] Cons.prems False c Inr nostop l show ?thesis by auto
      qed
    qed
  qed
qed

lemma foreach_loop_stop_last:
  "foreach_loop call skip hdrs s = (calls, s') \<Longrightarrow>
   \<forall>x \<in> set (butlast calls). \<not> ends_iteration (snd x)"
proof (induction hdrs arbitrary: s calls s')
  case Nil
  then show ?case by simp
next
  case (Cons hdr cur)
  show ?case
  proof (cases "skip hdr")
    case True
    with Cons show ?thesis by simp
  next
    case False
    obtain r s1 where c: "call hdr s = (r, s1)" by (cases "call hdr s")
    show ?thesis
    proof (cases r)
      case (Inl err)
      with Cons.prems False c show ?thesis by auto
    next
      case (Inr res)
      show ?thesis
      proof (cases "stop_signalled res")
        case True
        with Cons.prems False c Inr show ?thesis by auto
      next
        case nostop: False
        obtain calls1 s2 where l: "foreach_loop call skip cur s1 = (calls1, s2)"
          by (cases "foreach_loop call skip cur s1")
        from Cons.prems False c Inr nostop l have cs: "calls = (hdr, Inr res) # calls1"
          by auto
        have "\<not> ends_iteration (Inr res)" using nostop by (simp add: ends_iteration_def)
        with Cons.IH [OF l] cs show ?thesis by (auto split: if_splits)
      qed
    qed
  qed
qed

lemma foreach_loop_all:
  "foreach_loop call skip hdrs s = (calls, s') \<Longrightarrow>
   \<forall>x \<in> set calls. \<not> ends_iteration (snd x) \<Longrightarrow>
   map fst calls = filter (\<lambda>h. \<not> skip h) hdrs"
proof (induction hdrs arbitrary: s calls s')
  case Nil
  then show ?case by simp
next
  case (Cons hdr cur)
  show ?case
  proof (cases "skip hdr")
    case True
    with Cons show ?thesis by simp
  next
    case False
    obtain r s1 where c: "call hdr s = (r, s1)" by (cases "call hdr s")
    show ?thesis
    proof (cases r)
      case (Inl err)
      with Cons.prems False c show ?thesis by (auto simp: ends_iteration_def)
    next
      case (Inr res)
      show ?thesis
      proof (cases "stop_signalled res")
        case True
        with Cons.prems False c Inr show ?thesis by (auto simp: ends_iteration_def)
      next
        case nostop: False
        obtain calls1 s2 where l: "foreach_loop call skip cur s1 = (calls1, s2)"
          by (cases "foreach_loop call skip cur s1")
        from Cons.prems False c Inr nostop l have cs: "calls = (hdr, Inr res) # calls1"
          by auto
        with Cons.prems have "\<forall>x \<in> set calls1. \<not> ends_iteration (snd x)" by simp
        from Cons.IH [OF l this] cs False show ?thesis by simp
      qed
    qed
  qed
qed

lemma butlast_nth_conv:
  "(\<forall>x \<in> set (butlast xs). P x) \<longleftrightarrow> (\<forall>i. Suc i < length xs \<longrightarrow> P (xs ! i))"
  by (metis (no_types, lifting) in_set_conv_nth length_butlast less_diff_conv nth_butlast
      Suc_eq_plus1)

lemma foreach_selected_subseq: "subseq (foreach_selected m arg3 part) (part_headers part)"
  by (auto simp: foreach_selected_def split: sum.splits)

lemma run_stop_at_subject:
  "lua_mimepart_headers_foreach stop_at_subject example_push_header (\<lambda>rx n. True)
     (Udata (Some two_children_part)) (LFunction 0) LNil (0::nat) =
   (Inr [], [(hdr_from, Inr []), (hdr_subject, Inr [LBoolean True])], 2)"
  by (simp add: lua_mimepart_headers_foreach_def lua_check_mimepart_def foreach_params_def
       two_children_part_def regexp_skips_def stop_at_subject_def lua_pushstring_def cstr_def
       hdr_from_def hdr_subject_def hdr_to_def stop_signalled_def)

lemma run_never_stop:
  "lua_mimepart_headers_foreach never_stop example_push_header (\<lambda>rx n. True)
     (Udata (Some two_children_part)) (LFunction 0) LNil (0::nat) =
   (Inr [], [(hdr_from, Inr [LBoolean False]), (hdr_subject, Inr [LBoolean False]),
             (hdr_to, Inr [LBoolean False])], 3)"
  by (simp add: lua_mimepart_headers_foreach_def lua_check_mimepart_def foreach_params_def
       two_children_part_def regexp_skips_def never_stop_def lua_pushstring_def cstr_def
       hdr_from_def hdr_subject_def hdr_to_def stop_signalled_def)

lemma run_headerless:
  "lua_mimepart_headers_foreach stop_at_subject example_push_header (\<lambda>rx n. True)
     (Udata (Some headerless_part)) (LFunction 0) LNil (0::nat) = (Inr [], [], 0)"
  by (simp add: lua_mimepart_headers_foreach_def lua_check_mimepart_def foreach_params_def
       headerless_part_def)

section \<open>The properties\<close>

subsection \<open>C1: the variants of \<open>get_content\<close>\<close>

text \<open>
  C1 states that \<open>get_content\<close> dispatches on the five variant names and that the variants
  \<open>content\<close> and \<open>raw_utf\<close> return one and the same view. The second half does not hold:
  \<open>content\<close> reads the field \<^verbatim>\<open>content\<close>, \<open>raw_utf\<close> reads the field \<^verbatim>\<open>utf_raw_content\<close>. On the
  example part the two views differ in start and in length.
\<close>

theorem get_content_content_raw_utf_differ:
  "\<not> IS_PART_EMPTY example_text_part \<and>
   lua_textpart_get_content (Udata (Some example_text_part)) (LString ''content'') =
     Inr [new_text 100 5] \<and>
   lua_textpart_get_content (Udata (Some example_text_part)) (LString ''raw_utf'') =
     Inr [new_text 200 9] \<and>
   lua_textpart_get_content (Udata (Some example_text_part)) (LString ''content'') \<noteq>
   lua_textpart_get_content (Udata (Some example_text_part)) (LString ''raw_utf'')"
  by (simp add: get_content_dispatch cstr_variant_names example_text_part_not_empty)
    (simp add: example_text_part_def byte_array_text_def new_text_def)

text \<open>
  C1, amended: for every non-empty text part whose byte arrays \<^verbatim>\<open>content\<close>,
  \<^verbatim>\<open>stripped_content\<close> and \<^verbatim>\<open>utf_raw_content\<close> are present, \<open>get_content\<close> maps the names
  \<open>content\<close>, \<open>content_oneline\<close>, \<open>raw\<close>, \<open>raw_parsed\<close>, \<open>raw_utf\<close> to the views of the fields
  \<^verbatim>\<open>content\<close>, \<^verbatim>\<open>stripped_content\<close>, \<^verbatim>\<open>raw\<close>, \<^verbatim>\<open>parsed\<close>, \<^verbatim>\<open>utf_raw_content\<close>; the views for
  \<open>content\<close> and \<open>raw_utf\<close> are the same span exactly when those two fields hold the same
  start and length.
\<close>

theorem get_content_variant_views:
  assumes "\<not> IS_PART_EMPTY part" and "content part = Some c"
    and "stripped_content part = Some sc" and "utf_raw_content part = Some u"
  shows "lua_textpart_get_content (Udata (Some part)) (LString ''content'') =
           Inr [new_text (data c) (GByteArray.len c)] \<and>
         lua_textpart_get_content (Udata (Some part)) (LString ''content_oneline'') =
           Inr [new_text (data sc) (GByteArray.len sc)] \<and>
         lua_textpart_get_content (Udata (Some part)) (LString ''raw'') =
           Inr [new_text (ftok_begin (raw part)) (rspamd_ftok.len (raw part))] \<and>
         lua_textpart_get_content (Udata (Some part)) (LString ''raw_parsed'') =
           Inr [new_text (ftok_begin (parsed part)) (rspamd_ftok.len (parsed part))] \<and>
         lua_textpart_get_content (Udata (Some part)) (LString ''raw_utf'') =
           Inr [new_text (data u) (GByteArray.len u)] \<and>
         (lua_textpart_get_content (Udata (Some part)) (LString ''content'') =
          lua_textpart_get_content (Udata (Some part)) (LString ''raw_utf'')
          \<longleftrightarrow> data c = data u \<and> GByteArray.len c = GByteArray.len u)"
  using assms
  by (simp add: get_content_dispatch cstr_variant_names byte_array_text_def ftok_text_def
      new_text_def)

theorem get_content_variant_views_witness:
  "\<not> IS_PART_EMPTY example_text_part \<and>
   content example_text_part = Some \<lparr>data = 100, GByteArray.len = 5\<rparr> \<and>
   stripped_content example_text_part = Some \<lparr>data = 300, GByteArray.len = 4\<rparr> \<and>
   utf_raw_content example_text_part = Some \<lparr>data = 200, GByteArray.len = 9\<rparr> \<and>
   lua_textpart_get_content (Udata (Some example_text_part)) (LString ''content_oneline'') =
     Inr [new_text 300 4] \<and>
   lua_textpart_get_content (Udata (Some example_text_part)) (LString ''raw'') =
     Inr [new_text 500 12] \<and>
   lua_textpart_get_content (Udata (Some example_text_part)) (LString ''raw_parsed'') =
     Inr [new_text 400 9]"
proof -
  have h1: "\<not> IS_PART_EMPTY example_text_part" by (rule example_text_part_not_empty)
  have h2: "content example_text_part = Some \<lparr>data = 100, GByteArray.len = 5\<rparr>"
    by (simp add: example_text_part_def)
  have h3: "stripped_content example_text_part = Some \<lparr>data = 300, GByteArray.len = 4\<rparr>"
    by (simp add: example_text_part_def)
  have h4: "utf_raw_content example_text_part = Some \<lparr>data = 200, GByteArray.len = 9\<rparr>"
    by (simp add: example_text_part_def)
  have r: "raw example_text_part = \<lparr>ftok_begin = 500, rspamd_ftok.len = 12\<rparr>"
    by (simp add: example_text_part_def)
  have p: "parsed example_text_part = \<lparr>ftok_begin = 400, rspamd_ftok.len = 9\<rparr>"
    by (simp add: example_text_part_def)
  show ?thesis
    using h1 h2 h3 h4 get_content_variant_views [OF h1 h2 h3 h4] by (simp add: r p)
qed

subsection \<open>C2: accessors of a part flagged empty\<close>

text \<open>
  C2 states that for a part flagged empty the content views are absent, \<open>get_length\<close> and
  \<open>get_lines_count\<close> return 0, and the \<open>lines\<close> field of \<open>get_stats\<close> is 0. The accessors
  check the flag (lemmas \<open>empty_part_get_content\<close> to \<open>empty_part_get_lines_count\<close>);
  \<open>get_stats\<close> does not, it stores the counter \<^verbatim>\<open>nlines\<close> as it is (lemma \<open>get_stats_lines\<close>).
  On a part flagged empty whose counter is 3, \<open>get_lines_count\<close> returns 0 and \<open>get_stats\<close>
  reports 3 lines.
\<close>

theorem get_stats_lines_on_empty_part:
  "IS_PART_EMPTY stale_empty_part \<and>
   lua_textpart_get_lines_count (Udata (Some stale_empty_part)) = Inr [LNumber 0] \<and>
   lua_textpart_get_stats (Udata (Some stale_empty_part)) =
     Inr [LTable [(LString ''lines'', LNumber 3), (LString ''empty_lines'', LNumber 0),
                  (LString ''spaces'', LNumber 1), (LString ''non_spaces'', LNumber 4),
                  (LString ''double_spaces'', LNumber 0),
                  (LString ''ascii_characters'', LNumber 5),
                  (LString ''non_ascii_characters'', LNumber 0),
                  (LString ''capital_letters'', LNumber 1),
                  (LString ''numeric_characters'', LNumber 0)]]"
  by (simp add: IS_PART_EMPTY_def stale_empty_part_def example_text_part_def
      lua_textpart_get_lines_count_def lua_textpart_get_stats_def lua_check_textpart_def
      lua_settable_def)

subsection \<open>C3: \<open>is_broken\<close>\<close>

text \<open>
  C3: for every mime part, \<open>is_broken\<close> returns true if and only if the part has no
  content type or its content type carries the broken flag.
\<close>

theorem is_broken_iff:
  "lua_mimepart_is_broken (Udata (Some part)) =
     Inr [LBoolean (ct part = None \<or>
            (\<exists>c. ct part = Some c \<and>
                 RSPAMD_CONTENT_TYPE_BROKEN \<in> rspamd_content_type.flags c))]"
  by (simp add: lua_mimepart_is_broken_def lua_check_mimepart_def split: option.splits)

theorem is_broken_iff_witness:
  "lua_mimepart_is_broken (Udata (Some headerless_part)) = Inr [LBoolean True] \<and>
   lua_mimepart_is_broken (Udata (Some broken_ct_part)) = Inr [LBoolean True] \<and>
   lua_mimepart_is_broken (Udata (Some two_children_part)) = Inr [LBoolean False]"
  using is_broken_iff [of headerless_part] is_broken_iff [of broken_ct_part]
    is_broken_iff [of two_children_part]
  by (simp add: headerless_part_def broken_ct_part_def two_children_part_def multipart_ct_def)

subsection \<open>C4: \<open>get_children\<close>\<close>

text \<open>
  C4 states that \<open>get_children\<close> returns absent or a non-empty sequence of children, never
  a sequence that is present and empty. The function tests the child array for \<^verbatim>\<open>NULL\<close>
  only: for a multipart part whose child array exists and holds no element it returns an
  empty table.
\<close>

theorem get_children_present_but_empty:
  "lua_mimepart_get_children (Udata (Some childless_multipart)) = Inr [LTable []]"
  by (simp add: lua_mimepart_get_children_def lua_check_mimepart_def childless_multipart_def
      two_children_part_def multipart_ct_def IS_CT_MULTIPART_def)

text \<open>
  C4, amended: for every mime part, \<open>get_children\<close> returns absent when the part has no
  content type, when its content type is not multipart, or when the child array is
  missing; otherwise it returns the table holding, under the keys 1 to n and in the
  order of the array, one mime part object per child. That table is empty when the
  child array is.
\<close>

theorem get_children_result:
  "(ct part = None \<longrightarrow> lua_mimepart_get_children (Udata (Some part)) = Inr [LNil]) \<and>
   (\<not> IS_CT_MULTIPART (ct part) \<or> children part = None \<longrightarrow>
      lua_mimepart_get_children (Udata (Some part)) = Inr [LNil]) \<and>
   (\<forall>cs. IS_CT_MULTIPART (ct part) \<and> children part = Some cs \<longrightarrow>
      lua_mimepart_get_children (Udata (Some part)) =
        Inr [LTable (map child_entry (enumerate 0 cs))])"
  by (auto simp: lua_mimepart_get_children_def lua_check_mimepart_def children_table
      IS_CT_MULTIPART_def split: option.splits)

theorem get_children_result_witness:
  "IS_CT_MULTIPART (ct two_children_part) \<and>
   children two_children_part = Some [7000, 7100] \<and>
   lua_mimepart_get_children (Udata (Some two_children_part)) =
     Inr [LTable [(LNumber 1, LUserdata (UMimePart 7000)),
                  (LNumber 2, LUserdata (UMimePart 7100))]] \<and>
   ct broken_ct_part = Some (multipart_ct\<lparr>rspamd_content_type.flags :=
       {RSPAMD_CONTENT_TYPE_BROKEN}\<rparr>) \<and>
   lua_mimepart_get_children (Udata (Some broken_ct_part)) = Inr [LNil] \<and>
   ct headerless_part = None \<and>
   lua_mimepart_get_children (Udata (Some headerless_part)) = Inr [LNil]"
proof -
  have m: "IS_CT_MULTIPART (ct two_children_part)"
    by (simp add: IS_CT_MULTIPART_def two_children_part_def multipart_ct_def)
  have cs: "children two_children_part = Some [7000, 7100]"
    by (simp add: two_children_part_def)
  let ?b = "multipart_ct\<lparr>rspamd_content_type.flags := {RSPAMD_CONTENT_TYPE_BROKEN}\<rparr>"
  have hb: "ct broken_ct_part = Some ?b" by (simp add: broken_ct_part_def)
  have nb: "\<not> IS_CT_MULTIPART (ct broken_ct_part)"
    by (simp add: hb IS_CT_MULTIPART_def)
  have hn: "ct headerless_part = None" by (simp add: headerless_part_def)
  from get_children_result [of two_children_part] m cs
  have a: "lua_mimepart_get_children (Udata (Some two_children_part)) =
      Inr [LTable (map child_entry (enumerate 0 [7000, 7100]))]"
    by blast
  have e: "map child_entry (enumerate 0 [7000, 7100]) =
      [(LNumber 1, LUserdata (UMimePart 7000)), (LNumber 2, LUserdata (UMimePart 7100))]"
    by (simp add: child_entry_def)
  from get_children_result [of broken_ct_part] nb
  have b: "lua_mimepart_get_children (Udata (Some broken_ct_part)) = Inr [LNil]"
    by blast
  from get_children_result [of headerless_part] hn
  have c: "lua_mimepart_get_children (Udata (Some headerless_part)) = Inr [LNil]"
    by blast
  from m cs a e hb b hn c show ?thesis by simp
qed

subsection \<open>C5: \<open>get_urls_length\<close>\<close>

text \<open>
  C5 states that \<open>get_urls_length\<close> equals the sum of the byte lengths of the exceptions of
  kind url. The loop adds the lengths in a 32-bit unsigned accumulator, which wraps: for
  two url exceptions of 2147483648 bytes each the sum is 4294967296 and the result is 0.
\<close>

theorem get_urls_length_wraps:
  "urls_bytes (exceptions huge_urls_part) = 4294967296 \<and>
   lua_textpart_get_urls_length (Udata (Some huge_urls_part)) = Inr [LNumber 0]"
  by (simp add: huge_urls_part_def urls_bytes_def lua_textpart_get_urls_length_def
      lua_check_textpart_def)

text \<open>
  C5, amended: for every text part, \<open>get_urls_length\<close> equals the sum of the byte lengths
  of exactly the exceptions of kind url, reduced modulo \<open>2\<^sup>3\<^sup>2\<close>; it equals that sum itself
  whenever the sum is below \<open>2\<^sup>3\<^sup>2\<close>, and it is 0 when the list holds no exception of kind
  url (exceptions of any other kind contribute nothing).
\<close>

theorem get_urls_length_sum_mod:
  "lua_textpart_get_urls_length (Udata (Some part)) =
     Inr [LNumber (int (urls_bytes (exceptions part) mod 2 ^ 32))] \<and>
   (urls_bytes (exceptions part) < 2 ^ 32 \<longrightarrow>
      lua_textpart_get_urls_length (Udata (Some part)) =
        Inr [LNumber (int (urls_bytes (exceptions part)))]) \<and>
   ((\<forall>ex \<in> set (exceptions part).
        rspamd_process_exception.type ex \<noteq> RSPAMD_EXCEPTION_URL) \<longrightarrow>
      lua_textpart_get_urls_length (Udata (Some part)) = Inr [LNumber 0])"
proof -
  have m: "lua_textpart_get_urls_length (Udata (Some part)) =
      Inr [LNumber (int (urls_bytes (exceptions part) mod 2 ^ 32))]"
    by (rule get_urls_length_mod)
  have small: "urls_bytes (exceptions part) < 2 ^ 32 \<longrightarrow>
      lua_textpart_get_urls_length (Udata (Some part)) =
        Inr [LNumber (int (urls_bytes (exceptions part)))]"
    using m by simp
  have none: "(\<forall>ex \<in> set (exceptions part).
        rspamd_process_exception.type ex \<noteq> RSPAMD_EXCEPTION_URL) \<longrightarrow>
      lua_textpart_get_urls_length (Udata (Some part)) = Inr [LNumber 0]"
    using m by (simp add: urls_bytes_no_url)
  from m small none show ?thesis by blast
qed

theorem get_urls_length_sum_mod_witness:
  "urls_bytes (exceptions mixed_exceptions_part) = 30 \<and>
   lua_textpart_get_urls_length (Udata (Some mixed_exceptions_part)) = Inr [LNumber 30] \<and>
   map rspamd_process_exception.type (exceptions no_url_part) = [RSPAMD_EXCEPTION_OTHER 2] \<and>
   lua_textpart_get_urls_length (Udata (Some no_url_part)) = Inr [LNumber 0]"
proof -
  have s: "urls_bytes (exceptions mixed_exceptions_part) = 30"
    by (simp add: mixed_exceptions_part_def urls_bytes_def)
  have n: "\<forall>ex \<in> set (exceptions no_url_part).
      rspamd_process_exception.type ex \<noteq> RSPAMD_EXCEPTION_URL"
    by (simp add: no_url_part_def)
  from get_urls_length_sum_mod [of mixed_exceptions_part]
  have "lua_textpart_get_urls_length (Udata (Some mixed_exceptions_part)) =
      Inr [LNumber (int (urls_bytes (exceptions mixed_exceptions_part) mod 2 ^ 32))]"
    by blast
  then have a: "lua_textpart_get_urls_length (Udata (Some mixed_exceptions_part)) =
      Inr [LNumber 30]"
    by (simp add: s)
  from get_urls_length_sum_mod [of no_url_part] n
  have b: "lua_textpart_get_urls_length (Udata (Some no_url_part)) = Inr [LNumber 0]"
    by blast
  have k: "map rspamd_process_exception.type (exceptions no_url_part) =
      [RSPAMD_EXCEPTION_OTHER 2]"
    by (simp add: no_url_part_def)
  from s k a b show ?thesis by blast
qed

subsection \<open>C6: the header iteration\<close>

text \<open>
  C6: for every mime part and every callback, \<open>headers_foreach\<close> invokes the callback on
  header records in insertion order (the invocations are made for an initial segment of
  the selected headers, themselves a subsequence of \<^verbatim>\<open>headers_order\<close>), makes no further
  invocation after one whose result signals stop, and makes no invocation when the part
  has no headers. If no invocation leaves the loop, every selected header is visited.
\<close>

theorem headers_foreach_order_and_stop:
  assumes run: "lua_mimepart_headers_foreach pcall push_header regexp_match
                  (Udata (Some part)) arg2 arg3 s = (r, calls, s')"
  shows "prefix (map fst calls) (foreach_selected regexp_match arg3 part) \<and>
         subseq (map fst calls) (part_headers part) \<and>
         (\<forall>i. Suc i < length calls \<longrightarrow> \<not> ends_iteration (snd (calls ! i))) \<and>
         (part_headers part = [] \<longrightarrow> calls = []) \<and>
         ((\<exists>fn. arg2 = LFunction fn) \<and> (\<forall>x \<in> set calls. \<not> ends_iteration (snd x)) \<longrightarrow>
            map fst calls = foreach_selected regexp_match arg3 part)"
proof -
  let ?sel = "foreach_selected regexp_match arg3 part"
  have core: "prefix (map fst calls) ?sel \<and>
      (\<forall>x \<in> set (butlast calls). \<not> ends_iteration (snd x)) \<and>
      ((\<exists>fn. arg2 = LFunction fn) \<and> (\<forall>x \<in> set calls. \<not> ends_iteration (snd x)) \<longrightarrow>
         map fst calls = ?sel)"
  proof (cases "\<exists>fn. arg2 = LFunction fn")
    case False
    then have "calls = []" using run
      by (cases arg2) (auto simp: lua_mimepart_headers_foreach_def lua_check_mimepart_def)
    then show ?thesis using False by simp
  next
    case True
    then obtain fn where f: "arg2 = LFunction fn" by blast
    show ?thesis
    proof (cases "foreach_params arg3")
      case (Inl e)
      then have "calls = []" using run f
        by (simp add: lua_mimepart_headers_foreach_def lua_check_mimepart_def)
      then show ?thesis using Inl by (simp add: foreach_selected_def)
    next
      case (Inr prm)
      obtain full raw' re' where prm: "prm = (full, raw', re')" by (cases prm)
      show ?thesis
      proof (cases "headers_order part")
        case None
        then have "calls = []" using run f Inr prm
          by (simp add: lua_mimepart_headers_foreach_def lua_check_mimepart_def)
        then show ?thesis using None Inr prm
          by (simp add: foreach_selected_def part_headers_def)
      next
        case (Some hdrs)
        let ?call = "\<lambda>hdr s. pcall s arg2
                       [lua_pushstring (rspamd_mime_header.name hdr), push_header hdr full raw']"
        let ?skip = "regexp_skips regexp_match re'"
        have loop: "foreach_loop ?call ?skip hdrs s = (calls, s')"
          using run f Inr prm Some
          by (simp add: lua_mimepart_headers_foreach_def lua_check_mimepart_def
                split: prod.splits)
        have sel: "?sel = filter (\<lambda>h. \<not> ?skip h) hdrs"
          using Inr prm Some by (simp add: foreach_selected_def part_headers_def)
        show ?thesis
          using foreach_loop_prefix [OF loop] foreach_loop_stop_last [OF loop]
            foreach_loop_all [OF loop] sel
          by simp
      qed
    qed
  qed
  from core have p: "prefix (map fst calls) ?sel" by simp
  have sub: "subseq (map fst calls) (part_headers part)"
    using p foreach_selected_subseq [of regexp_match arg3 part]
    by (meson prefix_imp_subseq subseq_order.order_trans)
  have none: "part_headers part = [] \<longrightarrow> calls = []"
  proof
    assume "part_headers part = []"
    with sub have "subseq (map fst calls) []" by simp
    then have "map fst calls = []" by (rule list_emb_Nil2)
    then show "calls = []" by simp
  qed
  from core have "\<forall>i. Suc i < length calls \<longrightarrow> \<not> ends_iteration (snd (calls ! i))"
    by (simp add: butlast_nth_conv)
  with core sub none show ?thesis by simp
qed

theorem headers_foreach_order_and_stop_witness:
  "lua_mimepart_headers_foreach stop_at_subject example_push_header (\<lambda>rx n. True)
     (Udata (Some two_children_part)) (LFunction 0) LNil (0::nat) =
     (Inr [], [(hdr_from, Inr []), (hdr_subject, Inr [LBoolean True])], 2) \<and>
   prefix [hdr_from, hdr_subject] (foreach_selected (\<lambda>rx n. True) LNil two_children_part) \<and>
   subseq [hdr_from, hdr_subject] (part_headers two_children_part) \<and>
   \<not> ends_iteration (Inr []) \<and>
   lua_mimepart_headers_foreach never_stop example_push_header (\<lambda>rx n. True)
     (Udata (Some two_children_part)) (LFunction 0) LNil (0::nat) =
     (Inr [], [(hdr_from, Inr [LBoolean False]), (hdr_subject, Inr [LBoolean False]),
               (hdr_to, Inr [LBoolean False])], 3) \<and>
   [hdr_from, hdr_subject, hdr_to] = foreach_selected (\<lambda>rx n. True) LNil two_children_part \<and>
   part_headers headerless_part = [] \<and>
   lua_mimepart_headers_foreach stop_at_subject example_push_header (\<lambda>rx n. True)
     (Udata (Some headerless_part)) (LFunction 0) LNil (0::nat) = (Inr [], [], 0)"
proof -
  note t1 = headers_foreach_order_and_stop [OF run_stop_at_subject]
  note t2 = headers_foreach_order_and_stop [OF run_never_stop]
  note t3 = headers_foreach_order_and_stop [OF run_headerless]
  have p: "prefix [hdr_from, hdr_subject]
      (foreach_selected (\<lambda>rx n. True) LNil two_children_part)"
    using t1 by simp
  have q: "subseq [hdr_from, hdr_subject] (part_headers two_children_part)"
    using t1 by simp
  have e: "\<not> ends_iteration (Inr [])"
    by (simp add: ends_iteration_def stop_signalled_def)
  have ne: "\<forall>x \<in> set [(hdr_from, Inr [LBoolean False]), (hdr_subject, Inr [LBoolean False]),
               (hdr_to, Inr [LBoolean False])]. \<not> ends_iteration (snd x)"
    by (simp add: ends_iteration_def stop_signalled_def)
  have a: "[hdr_from, hdr_subject, hdr_to] =
      foreach_selected (\<lambda>rx n. True) LNil two_children_part"
    using t2 ne by simp
  have h: "part_headers headerless_part = []"
    by (simp add: part_headers_def headerless_part_def)
  from p q e a h run_stop_at_subject run_never_stop run_headerless show ?thesis by blast
qed

subsection \<open>C7: an unknown variant name\<close>

text \<open>
  C7 states that on a non-empty part every variant name outside the five is reported as
  an error. The name is compared as a C string, which ends at its first NUL byte: the Lua
  string made of \<open>raw\<close>, a NUL byte and \<open>x\<close> is none of the five names, and \<open>get_content\<close>
  returns the raw view for it.
\<close>

theorem get_content_nul_suffixed_name_accepted:
  "\<not> IS_PART_EMPTY example_text_part \<and>
   ''raw'' @ CHR 0x00 # ''x'' \<notin> set variant_names \<and>
   lua_textpart_get_content (Udata (Some example_text_part))
     (LString (''raw'' @ CHR 0x00 # ''x'')) = Inr [new_text 500 12]"
  by (simp add: get_content_dispatch example_text_part_not_empty variant_names_def)
    (simp add: cstr_def example_text_part_def ftok_text_def)

text \<open>
  C7, amended: for every non-empty text part, \<open>get_content\<close> with a variant name that,
  read as a C string (up to its first NUL byte), is none of the five names raises the
  error \<open>invalid content type\<close>, a result distinct from the absent result.
\<close>

theorem get_content_unknown_variant_error:
  assumes "\<not> IS_PART_EMPTY part" and "cstr tp \<notin> set variant_names"
  shows "lua_textpart_get_content (Udata (Some part)) (LString tp) =
           Inl (LuaError (''invalid content type: '' @ cstr tp)) \<and>
         lua_textpart_get_content (Udata (Some part)) (LString tp) \<noteq> Inr [LNil]"
  using assms by (simp add: get_content_dispatch variant_names_def)

theorem get_content_unknown_variant_error_witness:
  "\<not> IS_PART_EMPTY example_text_part \<and> cstr ''html'' \<notin> set variant_names \<and>
   lua_textpart_get_content (Udata (Some example_text_part)) (LString ''html'') =
     Inl (LuaError ''invalid content type: html'')"
proof -
  have h: "\<not> IS_PART_EMPTY example_text_part" by (rule example_text_part_not_empty)
  have c: "cstr ''html'' = ''html''" by (simp add: cstr_def)
  have n: "cstr ''html'' \<notin> set variant_names" by (simp add: c variant_names_def)
  show ?thesis
    using h n get_content_unknown_variant_error [OF h n] by (simp add: c)
qed

subsection \<open>C8: the boundary in the attribute table of \<open>get_type_full\<close>\<close>

text \<open>
  C8 states that \<open>get_type_full\<close> stores a non-empty boundary under the key \<open>charset\<close> and
  that no key \<open>boundary\<close> is ever present. The first half holds for the two stores made
  before the parameter loop; the loop then stores every named parameter of \<^verbatim>\<open>attrs\<close> under
  its own name. For a content type that lists its boundary among its parameters the
  table has a key \<open>boundary\<close>.
\<close>

theorem get_type_full_boundary_key_from_attrs:
  "lua_mimepart_get_type_full (Udata (Some boundary_attr_part)) =
     Inr [LString ''multipart'', LString ''mixed'',
          LTable [(LString ''charset'', LString ''xyz''),
                  (LString ''boundary'', LString ''xyz'')]] \<and>
   lua_rawget [(LString ''charset'', LString ''xyz''), (LString ''boundary'', LString ''xyz'')]
     (LString ''boundary'') = LString ''xyz''"
  by (simp add: lua_mimepart_get_type_full_def lua_mimepart_get_type_common_def
      lua_check_mimepart_def boundary_attr_part_def two_children_part_def multipart_ct_def
      attrs_step_def lua_settable_def lua_pushlstring_def lua_rawget_def)

text \<open>
  C8, amended: for every mime part whose content type is present and has a non-empty
  boundary, \<open>get_type_full\<close> returns type, subtype and a table in which the key \<open>charset\<close>
  holds the boundary value (also when the charset is non-empty: the boundary replaces
  it), unless \<^verbatim>\<open>attrs\<close> has a parameter named \<open>charset\<close>; the key \<open>boundary\<close> is absent when
  \<^verbatim>\<open>attrs\<close> has no parameter named \<open>boundary\<close>, and otherwise holds the value of the last
  such parameter.
\<close>

theorem get_type_full_boundary_under_charset:
  assumes "ct part = Some c" and "boundary c \<noteq> []"
  shows "\<exists>t. lua_mimepart_get_type_full (Udata (Some part)) =
            Inr [LString (rspamd_content_type.type c), LString (subtype c), LTable t] \<and>
          (named ''charset'' (attrs_list c) = [] \<longrightarrow>
             lua_rawget t (LString ''charset'') = LString (boundary c)) \<and>
          (named ''boundary'' (attrs_list c) = [] \<longrightarrow>
             lua_rawget t (LString ''boundary'') = LNil) \<and>
          (named ''boundary'' (attrs_list c) \<noteq> [] \<longrightarrow>
             lua_rawget t (LString ''boundary'') =
               LString (param_value (last (named ''boundary'' (attrs_list c)))))"
  using assms
  by (cases "attrs c")
     (simp_all add: lua_mimepart_get_type_full_def lua_mimepart_get_type_common_def
       lua_check_mimepart_def lua_pushlstring_def lua_settable_def lua_rawget_def
       attrs_list_def fold_attrs_map_of Let_def named_def)

theorem get_type_full_boundary_under_charset_witness:
  "ct two_children_part = Some multipart_ct \<and> boundary multipart_ct \<noteq> [] \<and>
   charset multipart_ct \<noteq> [] \<and>
   named ''charset'' (attrs_list multipart_ct) = [] \<and>
   named ''boundary'' (attrs_list multipart_ct) = [] \<and>
   (\<exists>t. lua_mimepart_get_type_full (Udata (Some two_children_part)) =
          Inr [LString ''multipart'', LString ''mixed'', LTable t] \<and>
        lua_rawget t (LString ''charset'') = LString ''xyz'' \<and>
        lua_rawget t (LString ''boundary'') = LNil)"
proof -
  have h: "ct two_children_part = Some multipart_ct" by (simp add: two_children_part_def)
  have b: "boundary multipart_ct \<noteq> []" by (simp add: multipart_ct_def)
  have cs: "charset multipart_ct \<noteq> []" by (simp add: multipart_ct_def)
  have n1: "named ''charset'' (attrs_list multipart_ct) = []"
    by (simp add: named_def attrs_list_def multipart_ct_def)
  have n2: "named ''boundary'' (attrs_list multipart_ct) = []"
    by (simp add: named_def attrs_list_def multipart_ct_def)
  have v: "rspamd_content_type.type multipart_ct = ''multipart''"
    "subtype multipart_ct = ''mixed''" "boundary multipart_ct = ''xyz''"
    by (simp_all add: multipart_ct_def)
  from get_type_full_boundary_under_charset [OF h b] n1 n2
  have "\<exists>t. lua_mimepart_get_type_full (Udata (Some two_children_part)) =
          Inr [LString ''multipart'', LString ''mixed'', LTable t] \<and>
        lua_rawget t (LString ''charset'') = LString ''xyz'' \<and>
        lua_rawget t (LString ''boundary'') = LNil"
    by (simp only: v simp_thms)
  with h b cs n1 n2 show ?thesis by blast
qed

subsection \<open>C9: \<open>is_utf\<close> on a part flagged empty\<close>

text \<open>
  C9: for every text part whose empty flag is set, \<open>is_utf\<close> returns false, whether or not
  the utf8 flag is set.
\<close>

theorem is_utf_false_when_empty:
  "IS_PART_EMPTY part \<Longrightarrow> lua_textpart_is_utf (Udata (Some part)) = Inr [LBoolean False]"
  by (simp add: lua_textpart_is_utf_def lua_check_textpart_def)

theorem is_utf_false_when_empty_witness:
  "IS_PART_EMPTY stale_empty_part \<and> IS_PART_UTF stale_empty_part \<and>
   lua_textpart_is_utf (Udata (Some stale_empty_part)) = Inr [LBoolean False]"
proof -
  have h: "IS_PART_EMPTY stale_empty_part"
    by (simp add: IS_PART_EMPTY_def stale_empty_part_def)
  have u: "IS_PART_UTF stale_empty_part"
    by (simp add: IS_PART_UTF_def stale_empty_part_def)
  show ?thesis using h u is_utf_false_when_empty [OF h] by simp
qed

subsection \<open>C10: \<open>get_language\<close>\<close>

text \<open>
  C10: for every text part, \<open>get_language\<close> returns one value; it is absent when the
  language field is absent and also when the stored language string is empty; a result
  that is not absent is a non-empty string.
\<close>

theorem get_language_absent_or_nonempty:
  "(\<exists>v. lua_textpart_get_language (Udata (Some part)) = Inr [v]) \<and>
   (language part = None \<longrightarrow> lua_textpart_get_language (Udata (Some part)) = Inr [LNil]) \<and>
   (\<forall>l. language part = Some l \<and> cstr l = [] \<longrightarrow>
        lua_textpart_get_language (Udata (Some part)) = Inr [LNil]) \<and>
   (\<forall>v. lua_textpart_get_language (Udata (Some part)) = Inr [v] \<and> v \<noteq> LNil \<longrightarrow>
        (\<exists>s. v = LString s \<and> s \<noteq> []))"
  by (auto simp: lua_textpart_get_language_def lua_check_textpart_def lua_pushstring_def
       dest: cstr_nonempty cstr_empty split: option.splits if_splits)

theorem get_language_absent_or_nonempty_witness:
  "language no_language_part = None \<and>
   lua_textpart_get_language (Udata (Some no_language_part)) = Inr [LNil] \<and>
   language empty_language_part = Some [] \<and> cstr [] = [] \<and>
   lua_textpart_get_language (Udata (Some empty_language_part)) = Inr [LNil] \<and>
   lua_textpart_get_language (Udata (Some example_text_part)) = Inr [LString ''en''] \<and>
   LString ''en'' \<noteq> LNil \<and> (\<exists>s. LString ''en'' = LString s \<and> s \<noteq> [])"
proof -
  have n: "language no_language_part = None" by (simp add: no_language_part_def)
  have e: "language empty_language_part = Some []" by (simp add: empty_language_part_def)
  have c: "cstr [] = []" by (simp add: cstr_def)
  have r: "lua_textpart_get_language (Udata (Some example_text_part)) = Inr [LString ''en'']"
    by (simp add: lua_textpart_get_language_def lua_check_textpart_def example_text_part_def
        first_byte_not_nul_def lua_pushstring_def cstr_def)
  from get_language_absent_or_nonempty [of no_language_part] n
  have a: "lua_textpart_get_language (Udata (Some no_language_part)) = Inr [LNil]" by blast
  from get_language_absent_or_nonempty [of empty_language_part] e c
  have b: "lua_textpart_get_language (Udata (Some empty_language_part)) = Inr [LNil]"
    by blast
  from get_language_absent_or_nonempty [of example_text_part] r
  have d: "\<exists>s. LString ''en'' = LString s \<and> s \<noteq> []" by blast
  from n a e c b r d show ?thesis by blast
qed

end
